theory Spec2Isabelle
  imports Complex_Main
begin

section \<open>Numbers\<close>

text \<open>
  The program computes with numpy \<open>float64\<close> values. Rounding and overflow are not
  modelled: temperatures, enthalpies and entropies are real numbers. The one float
  behaviour the evaluators can visibly run into is kept: numpy does not raise on a
  division by zero, it warns and yields \<open>inf\<close>, \<open>-inf\<close> or \<open>nan\<close>. An efficiency is
  therefore a value of \<open>npfloat\<close>. Signed zeros are not modelled (a zero divisor
  is \<open>+0.0\<close>).
\<close>

datatype npfloat = Finite real | PosInf | NegInf | NaN

definition np_divide :: "real \<Rightarrow> real \<Rightarrow> npfloat" where
  "np_divide a b =
     (if b \<noteq> 0 then Finite (a / b)
      else if 0 < a then PosInf
      else if a < 0 then NegInf
      else NaN)"

fun np_multiply :: "npfloat \<Rightarrow> real \<Rightarrow> npfloat" where
  "np_multiply (Finite x) c = Finite (x * c)"
| "np_multiply PosInf c = (if 0 < c then PosInf else if c < 0 then NegInf else NaN)"
| "np_multiply NegInf c = (if 0 < c then NegInf else if c < 0 then PosInf else NaN)"
| "np_multiply NaN c = NaN"

text \<open>The comparison \<open>a >= b\<close> of two floats: false as soon as one side is \<open>nan\<close>.\<close>

fun np_ge :: "npfloat \<Rightarrow> npfloat \<Rightarrow> bool" where
  "np_ge NaN b = False"
| "np_ge a NaN = False"
| "np_ge PosInf b = True"
| "np_ge a NegInf = True"
| "np_ge NegInf b = False"
| "np_ge a PosInf = False"
| "np_ge (Finite x) (Finite y) = (y \<le> x)"

section \<open>The collaborators: property functions and the root finder\<close>

text \<open>
  \<open>h\<close> and \<open>s\<close> are the two interpolants built at module level from the data file
  (\<open>interp1d(..., kind='cubic', fill_value="extrapolate")\<close>); the file is not part of
  the sources, so every evaluator takes them as arguments, in this order.

  \<open>fsolve\<close> is \<open>scipy.optimize.fsolve\<close>, called as \<open>fsolve(f, x0)[0]\<close>. Called this way
  it returns the last iterate whether or not the iteration converged (a failure is
  only a \<open>RuntimeWarning\<close>). The model keeps the solver's own verdict beside the
  iterate, so that what the callers do with it can be stated; \<open>sol_x\<close> is the
  \<open>[0]\<close> the callers take.
\<close>

record solve_result =
  sol_x :: real
  converged :: bool

type_synonym solver = "(real \<Rightarrow> real) \<Rightarrow> real \<Rightarrow> solve_result"

section \<open>Simulation constants\<close>

definition T1 :: real where "T1 = 298.15"
definition T3 :: real where "T3 = 1200.0"
definition R :: real where "R = 0.287"

definition eta_c :: real where "eta_c = 0.90"
definition eta_t :: real where "eta_t = 0.90"

definition T_stack :: real where "T_stack = 460.0"
definition T4_limit :: real where "T4_limit = 673.15"
definition eta_rankine_1kg :: real where "eta_rankine_1kg = 36.53"
definition q_in_rankine :: real where "q_in_rankine = 2917.0"

section \<open>Part 1: thermal efficiency of the Brayton cycle\<close>

text \<open>
  The two residuals are named inner functions of \<open>thermal_efficiency\<close>. \<open>np.log(r)\<close>
  is \<open>ln r\<close> and \<open>r**0.3\<close> is \<open>r powr 0.3\<close>: the model speaks for positive compression
  ratios (on the others numpy yields \<open>-inf\<close> or \<open>nan\<close>).
\<close>

definition s_diff_comp :: "(real \<Rightarrow> real) \<Rightarrow> real \<Rightarrow> real \<Rightarrow> real" where
  "s_diff_comp s r T = s T - s T1 - R * ln r"

definition s_diff_turb :: "(real \<Rightarrow> real) \<Rightarrow> real \<Rightarrow> real \<Rightarrow> real" where
  "s_diff_turb s r T = s T - s T3 + R * ln r"

definition thermal_efficiency ::
  "(real \<Rightarrow> real) \<Rightarrow> (real \<Rightarrow> real) \<Rightarrow> solver \<Rightarrow> real \<Rightarrow> npfloat" where
  "thermal_efficiency h s fsolve r =
     (let T2s = sol_x (fsolve (s_diff_comp s r) (T1 * r powr 0.3));
          h1 = h T1;
          h2s = h T2s;
          h2 = h1 + (h2s - h1) / eta_c;
          T4s = sol_x (fsolve (s_diff_turb s r) (T3 / r powr 0.3));
          h3 = h T3;
          h4s = h T4s;
          h4 = h3 - eta_t * (h3 - h4s);
          w_net = (h3 - h4) - (h2 - h1);
          q_in = h3 - h2
      in np_divide w_net q_in)"

section \<open>Part 2: net work\<close>

definition net_work ::
  "(real \<Rightarrow> real) \<Rightarrow> (real \<Rightarrow> real) \<Rightarrow> solver \<Rightarrow> real \<Rightarrow> real" where
  "net_work h s fsolve r =
     (let s1 = s T1;
          T2s = sol_x (fsolve (\<lambda>T. s T - s1 - R * ln r) (T1 * r powr 0.3));
          h1 = h T1;
          h2s = h T2s;
          h2 = h1 + (h2s - h1) / eta_c;
          s3 = s T3;
          T4s = sol_x (fsolve (\<lambda>T. s T - s3 + R * ln r) (T3 / r powr 0.3));
          h3 = h T3;
          h4s = h T4s;
          h4 = h3 - eta_t * (h3 - h4s)
      in (h3 - h4) - (h2 - h1))"

section \<open>Part 3: sensitivity to the isentropic efficiencies\<close>

text \<open>
  The efficiencies are arguments here, so the compressor line can divide by zero.
  numpy then makes \<open>h2\<close> infinite (or \<open>nan\<close> when \<open>h2s = h1\<close>); \<open>w_net\<close> and \<open>q_in\<close>
  are both infinite and their quotient is \<open>nan\<close>. That outcome is written out as the
  first branch; in the other branch all intermediate values are finite.
\<close>

definition thermal_efficiency_sens ::
  "(real \<Rightarrow> real) \<Rightarrow> (real \<Rightarrow> real) \<Rightarrow> solver \<Rightarrow> real \<Rightarrow> real \<Rightarrow> real \<Rightarrow> npfloat" where
  "thermal_efficiency_sens h s fsolve r eta_c_val eta_t_val =
     (if eta_c_val = 0 then NaN
      else
        let s1 = s T1;
            T2s = sol_x (fsolve (\<lambda>T. s T - s1 - R * ln r) (T1 * r powr 0.3));
            h1 = h T1;
            h2s = h T2s;
            h2 = h1 + (h2s - h1) / eta_c_val;
            s3 = s T3;
            T4s = sol_x (fsolve (\<lambda>T. s T - s3 + R * ln r) (T3 / r powr 0.3));
            h3 = h T3;
            h4s = h T4s;
            h4 = h3 - eta_t_val * (h3 - h4s);
            w_net = (h3 - h4) - (h2 - h1);
            q_in = h3 - h2
        in np_multiply (np_divide w_net q_in) 100)"

section \<open>Part 4: combined cycle\<close>

definition calculate_efficiencies_comb ::
  "(real \<Rightarrow> real) \<Rightarrow> (real \<Rightarrow> real) \<Rightarrow> solver \<Rightarrow> real \<Rightarrow> npfloat \<times> npfloat \<times> real" where
  "calculate_efficiencies_comb h s fsolve r =
     (let s1 = s T1;
          T2s = sol_x (fsolve (\<lambda>T. s T - s1 - R * ln r) 350);
          h1 = h T1;
          h2s = h T2s;
          h2 = h1 + (h2s - h1) / eta_c;
          s3 = s T3;
          T4s = sol_x (fsolve (\<lambda>T. s T - s3 + R * ln r) 1000);
          h3 = h T3;
          h4s = h T4s;
          h4 = h3 - eta_t * (h3 - h4s);
          w_net_brayton = (h3 - h4) - (h2 - h1);
          q_in_brayton = h3 - h2;
          eta_brayton = np_multiply (np_divide w_net_brayton q_in_brayton) 100;
          T4_real = sol_x (fsolve (\<lambda>T. h T - h4) 800);
          eta_combined =
            (if T4_real \<ge> T4_limit then
               let h_stack = h T_stack;
                   q_to_rankine = max 0 (h4 - h_stack);
                   m_steam = q_to_rankine / q_in_rankine;
                   w_rankine = m_steam * (q_in_rankine * eta_rankine_1kg / 100)
               in np_multiply (np_divide (w_net_brayton + w_rankine) q_in_brayton) 100
             else eta_brayton)
      in (eta_brayton, eta_combined, T4_real))"

section \<open>Part 2, module level: the optimum of the net-work sweep\<close>

datatype py_error = ValueError

definition linspace :: "real \<Rightarrow> real \<Rightarrow> nat \<Rightarrow> real list" where
  "linspace start stop num =
     (if num = 1 then [start]
      else map (\<lambda>i. start + real i * ((stop - start) / real (num - 1))) [0..<num])"

text \<open>
  The builtin \<open>max\<close> walks the sequence once and replaces its candidate only by a
  strictly greater item; on an empty sequence it raises \<open>ValueError\<close>.
\<close>

fun max_from :: "real \<Rightarrow> real list \<Rightarrow> real" where
  "max_from m [] = m"
| "max_from m (x # xs) = max_from (if x > m then x else m) xs"

definition py_max :: "real list \<Rightarrow> py_error + real" where
  "py_max xs = (case xs of [] \<Rightarrow> Inl ValueError | x # ys \<Rightarrow> Inr (max_from x ys))"

text \<open>
  \<open>np.argmax\<close> returns the index of the first occurrence of the maximum and raises
  \<open>ValueError\<close> on an empty sequence. \<open>argmax_from bi bv i xs\<close> scans \<open>xs\<close>, whose head
  has index \<open>i\<close>, with the best index \<open>bi\<close> and the best value \<open>bv\<close> so far.
\<close>

fun argmax_from :: "nat \<Rightarrow> real \<Rightarrow> nat \<Rightarrow> real list \<Rightarrow> nat" where
  "argmax_from bi bv i [] = bi"
| "argmax_from bi bv i (x # xs) =
     (if x > bv then argmax_from i x (Suc i) xs else argmax_from bi bv (Suc i) xs)"

definition np_argmax :: "real list \<Rightarrow> py_error + nat" where
  "np_argmax xs = (case xs of [] \<Rightarrow> Inl ValueError | x # ys \<Rightarrow> Inr (argmax_from 0 x 1 ys))"

text \<open>
  Lines 131 to 135, with the sequence of ratios as an argument: the pair
  \<open>(w_net_max, r_opt)\<close>. Indexing \<open>r_values_2\<close> out of range would raise; the index
  comes from a list of the same length, and the model returns the error of
  \<open>max\<close> on the empty sequence before it could happen.
\<close>

definition net_work_optimum ::
  "(real \<Rightarrow> real) \<Rightarrow> (real \<Rightarrow> real) \<Rightarrow> solver \<Rightarrow> real list \<Rightarrow> py_error + real \<times> real" where
  "net_work_optimum h s fsolve r_values_2 =
     (let w_net_values = map (net_work h s fsolve) r_values_2
      in case py_max w_net_values of
           Inl e \<Rightarrow> Inl e
         | Inr w_net_max \<Rightarrow>
             (case np_argmax w_net_values of
                Inl e \<Rightarrow> Inl e
              | Inr i \<Rightarrow> Inr (w_net_max, r_values_2 ! i)))"

definition r_values_2 :: "real list" where
  "r_values_2 = linspace 2 30 12"

section \<open>Loading the property table\<close>

text \<open>
  Lines 17 to 24 of \<open>load_data\<close> open the file, read it and turn every number the
  regular expression finds into a float. What that gives for a file name belongs
  to the file system: the numbers, a \<open>FileNotFoundError\<close>, or another exception
  derived from \<open>Exception\<close> (with its text).
\<close>

datatype read_outcome = Numbers "real list" | FileNotFoundError | OtherException string

type_synonym matrix = "real list list"

definition zeros :: "nat \<Rightarrow> nat \<Rightarrow> matrix" where
  "zeros m n = replicate m (replicate n 0)"

fun reshape :: "nat \<Rightarrow> nat \<Rightarrow> real list \<Rightarrow> matrix" where
  "reshape 0 n xs = []"
| "reshape (Suc m) n xs = take n xs # reshape m n (drop n xs)"

text \<open>The result is the matrix together with the lines printed.\<close>

definition load_data :: "(string \<Rightarrow> read_outcome) \<Rightarrow> string \<Rightarrow> matrix \<times> string list" where
  "load_data files filename =
     (case files filename of
        Numbers numbers \<Rightarrow>
          (let num_cols = 6;
               num_rows = length numbers div num_cols;
               data_matrix = reshape num_rows num_cols (take (num_rows * num_cols) numbers)
           in (data_matrix, []))
      | FileNotFoundError \<Rightarrow>
          (zeros 10 6,
           [''Error: '' @ filename @ '' not found. Please ensure it is in the data/ folder.''])
      | OtherException e \<Rightarrow>
          (zeros 10 6, [''An error occurred loading data: '' @ e]))"

text \<open>Lines 41 to 49: the choice of the path, the load and the warning.\<close>

definition load_module_data ::
  "(string \<Rightarrow> bool) \<Rightarrow> (string \<Rightarrow> read_outcome) \<Rightarrow> matrix \<times> string list" where
  "load_module_data path_exists files =
     (let data_path = (if \<not> path_exists ''data/AirDataSonntag.txt''
                       then ''AirDataSonntag.txt'' else ''data/AirDataSonntag.txt'');
          (data, printed) = load_data files data_path
      in (data,
          printed @
          (if sum_list (concat data) = 0
           then [''WARNING: Data loaded is empty. Check AirDataSonntag.txt file.'']
           else [])))"

section \<open>Building the property functions\<close>

text \<open>
  Lines 52 to 58 take three columns of the table and build the two interpolants.
  \<open>interp1d(x, y, kind='cubic', fill_value="extrapolate")\<close> raises \<open>ValueError\<close> when
  there are fewer than four points or when two abscissae are equal, and returns the
  interpolant otherwise. How scipy constructs the cubic spline from accepted data
  is not modelled: it is the argument \<open>spline\<close>.
\<close>

definition interp1d ::
  "(real list \<Rightarrow> real list \<Rightarrow> real \<Rightarrow> real) \<Rightarrow> real list \<Rightarrow> real list \<Rightarrow> py_error + (real \<Rightarrow> real)" where
  "interp1d spline x y =
     (if length x < 4 \<or> \<not> distinct x then Inl ValueError else Inr (spline x y))"

text \<open>
  Lines 41 to 58: what has been printed, and either the exception that stops the
  module or the pair \<open>(h, s)\<close>.
\<close>

definition module_interpolants ::
  "(real list \<Rightarrow> real list \<Rightarrow> real \<Rightarrow> real) \<Rightarrow> (string \<Rightarrow> bool) \<Rightarrow> (string \<Rightarrow> read_outcome)
   \<Rightarrow> string list \<times> (py_error + (real \<Rightarrow> real) \<times> (real \<Rightarrow> real))" where
  "module_interpolants spline path_exists files =
     (let (data, printed) = load_module_data path_exists files;
          T_data = map (\<lambda>row. row ! 0) data;
          h_data = map (\<lambda>row. row ! 1) data;
          s_data = map (\<lambda>row. row ! 5) data
      in (printed,
          case interp1d spline T_data h_data of
            Inl e \<Rightarrow> Inl e
          | Inr h \<Rightarrow>
              (case interp1d spline T_data s_data of
                 Inl e \<Rightarrow> Inl e
               | Inr s \<Rightarrow> Inr (h, s))))"

section \<open>Sample collaborators\<close>

text \<open>
  Concrete property functions and solvers on which the evaluators can be run.
  \<open>interp_lin\<close> interpolates a table linearly and extrapolates its end segments.
\<close>

fun interp_lin :: "(real \<times> real) list \<Rightarrow> real \<Rightarrow> real" where
  "interp_lin [] T = 0"
| "interp_lin [(x, y)] T = y"
| "interp_lin ((x0, y0) # (x1, y1) # ps) T =
     (if T \<le> x1 \<or> ps = [] then y0 + (y1 - y0) * (T - x0) / (x1 - x0)
      else interp_lin ((x1, y1) # ps) T)"

text \<open>A stand-in for the spline construction: the linear interpolant of the points.\<close>

definition lin_spline :: "real list \<Rightarrow> real list \<Rightarrow> real \<Rightarrow> real" where
  "lin_spline x y = interp_lin (zip x y)"

text \<open>Enthalpy of a gas with constant specific heat 1 kJ/kg K.\<close>

definition h_lin :: "real \<Rightarrow> real" where
  "h_lin T = T"

text \<open>
  Two entropy tables in units of \<open>R ln 2\<close>, both strictly increasing. On the first
  the cycle at \<open>r = 2\<close> has \<open>T2s = 370\<close> and \<open>T4s = 1000\<close>; on the second, \<open>T2s = 1150\<close>
  and \<open>T4s = 650\<close>.
\<close>

definition s_tab :: "real \<Rightarrow> real" where
  "s_tab T = R * ln 2 * interp_lin [(298.15, 0), (370, 1), (1000, 2), (1200, 3)] T"

definition s_steep :: "real \<Rightarrow> real" where
  "s_steep T = R * ln 2 * interp_lin [(298.15, 0), (650, 0.1), (1150, 1), (1200, 1.1)] T"

text \<open>
  A solver that tries a list of candidates and reports the first exact root; when
  there is none it gives the seed back and reports that it did not converge.
\<close>

definition scan_solver :: "real list \<Rightarrow> solver" where
  "scan_solver cands f x0 =
     (case find (\<lambda>T. f T = 0) cands of
        Some T \<Rightarrow> \<lparr>sol_x = T, converged = True\<rparr>
      | None \<Rightarrow> \<lparr>sol_x = x0, converged = False\<rparr>)"

text \<open>A solver that returns its seed and claims success.\<close>

definition seed_solver :: solver where
  "seed_solver f x0 = \<lparr>sol_x = x0, converged = True\<rparr>"

text \<open>A solver for the first table: the nodes of the table and two more candidates.\<close>

definition tab_solver :: solver where
  "tab_solver = scan_solver [T1, 370, 1000, T3, 1020, 453]"

text \<open>A solver for the second table.\<close>

definition steep_solver :: solver where
  "steep_solver = scan_solver [1150, 650, 705]"

text \<open>
  A third entropy table, on which the cycle at \<open>r = 2\<close> has \<open>T2s = 1109.815\<close> and
  \<open>T4s = 650\<close>, and a solver for it.
\<close>

definition s_edge :: "real \<Rightarrow> real" where
  "s_edge T = R * ln 2 * interp_lin [(298.15, 0), (650, 0.1), (1109.815, 1), (1200, 1.1)] T"

definition edge_solver :: solver where
  "edge_solver = scan_solver [1109.815, 650]"

section \<open>Specification vocabulary\<close>

text \<open>
  \<open>first_max_at ws k\<close>: position \<open>k\<close> holds a maximum of \<open>ws\<close>, and no earlier
  position does.
\<close>

definition first_max_at :: "real list \<Rightarrow> nat \<Rightarrow> bool" where
  "first_max_at ws k \<longleftrightarrow>
     k < length ws \<and> (\<forall>j<length ws. ws ! j \<le> ws ! k) \<and> (\<forall>j<k. ws ! j < ws ! k)"

text \<open>
  \<open>sound_solver fsolve\<close>: whenever the solver reports convergence, what it returns is
  a root of the function it was given.
\<close>

definition sound_solver :: "solver \<Rightarrow> bool" where
  "sound_solver fsolve \<longleftrightarrow> (\<forall>f x0. converged (fsolve f x0) \<longrightarrow> f (sol_x (fsolve f x0)) = 0)"

text \<open>
  The component state model in the words of the specification (section 4.2):
  the actual exit enthalpy of a compressor or turbine leg.
\<close>

datatype mode = Compression | Expansion

definition spec_apply_isentropic_efficiency :: "real \<Rightarrow> real \<Rightarrow> real \<Rightarrow> mode \<Rightarrow> real" where
  "spec_apply_isentropic_efficiency h_in h_out_isentropic efficiency m =
     (case m of
        Compression \<Rightarrow> h_in + (h_out_isentropic - h_in) / efficiency
      | Expansion \<Rightarrow> h_in - efficiency * (h_in - h_out_isentropic))"

text \<open>
  The combined cycle evaluator in the words of the specification (section 4.4, on
  top of 4.3 and 4.2), with the seeds and the bottoming-cycle constants of the
  program: Brayton efficiency, combined efficiency and actual turbine exit
  temperature.
\<close>

definition spec_evaluate_combined ::
  "(real \<Rightarrow> real) \<Rightarrow> (real \<Rightarrow> real) \<Rightarrow> solver \<Rightarrow> real \<Rightarrow> npfloat \<times> npfloat \<times> real" where
  "spec_evaluate_combined enthalpy entropy resolve r =
     (let T2s = sol_x (resolve (\<lambda>T. entropy T - (entropy T1 + R * ln r)) 350);
          T4s = sol_x (resolve (\<lambda>T. entropy T - (entropy T3 - R * ln r)) 1000);
          h1 = enthalpy T1;
          h3 = enthalpy T3;
          h2 = spec_apply_isentropic_efficiency h1 (enthalpy T2s) eta_c Compression;
          h4 = spec_apply_isentropic_efficiency h3 (enthalpy T4s) eta_t Expansion;
          net_work_brayton = (h3 - h4) - (h2 - h1);
          heat_input_brayton = h3 - h2;
          eta_brayton = np_divide net_work_brayton heat_input_brayton;
          T4_actual = sol_x (resolve (\<lambda>T. enthalpy T - h4) 800);
          combined_efficiency =
            (if T4_actual \<ge> T4_limit then
               let q_to_bottoming = max 0 (h4 - enthalpy T_stack);
                   mass_fraction_steam = q_to_bottoming / q_in_rankine;
                   w_bottoming = mass_fraction_steam * (q_in_rankine * eta_rankine_1kg / 100)
               in np_divide (net_work_brayton + w_bottoming) heat_input_brayton
             else eta_brayton)
      in (eta_brayton, combined_efficiency, T4_actual))"

section \<open>Verification\<close>

lemma resid_comp: "s_diff_comp s r = (\<lambda>T. s T - s T1 - R * ln r)"
  by (rule ext) (simp add: s_diff_comp_def)

lemma resid_turb: "s_diff_turb s r = (\<lambda>T. s T - s T3 + R * ln r)"
  by (rule ext) (simp add: s_diff_turb_def)

subsection \<open>The sample collaborators, evaluated\<close>

lemmas constants =
  T1_def T3_def R_def eta_c_def eta_t_def T_stack_def T4_limit_def eta_rankine_1kg_def
  q_in_rankine_def

lemma R_ln2_nonzero: "R * ln 2 \<noteq> 0"
  by (simp add: R_def)

lemma s_tab_nodes:
  "s_tab T1 = 0" "s_tab 370 = R * ln 2" "s_tab 1000 = 2 * (R * ln 2)"
  "s_tab T3 = 3 * (R * ln 2)"
  by (simp_all add: s_tab_def constants)

lemma tab_solver_comp_1:
  "tab_solver (\<lambda>T. s_tab T - s_tab T1 - R * ln 1) x0 = \<lparr>sol_x = T1, converged = True\<rparr>"
  by (simp add: tab_solver_def scan_solver_def s_tab_nodes)

lemma tab_solver_turb_1:
  "tab_solver (\<lambda>T. s_tab T - s_tab T3 + R * ln 1) x0 = \<lparr>sol_x = T3, converged = True\<rparr>"
  using R_ln2_nonzero by (simp add: tab_solver_def scan_solver_def s_tab_nodes)

lemma tab_solver_comp_2:
  "tab_solver (\<lambda>T. s_tab T - s_tab T1 - R * ln 2) x0 = \<lparr>sol_x = 370, converged = True\<rparr>"
  using R_ln2_nonzero by (simp add: tab_solver_def scan_solver_def s_tab_nodes)

lemma tab_solver_turb_2:
  "tab_solver (\<lambda>T. s_tab T - s_tab T3 + R * ln 2) x0 = \<lparr>sol_x = 1000, converged = True\<rparr>"
  using R_ln2_nonzero by (simp add: tab_solver_def scan_solver_def s_tab_nodes)

lemma net_work_tab_1: "net_work h_lin s_tab tab_solver 1 = 0"
  using tab_solver_comp_1 tab_solver_turb_1 by (simp add: net_work_def Let_def h_lin_def)

lemma net_work_tab_2: "net_work h_lin s_tab tab_solver 2 = 601 / 6"
  by (simp add: net_work_def Let_def tab_solver_comp_2 tab_solver_turb_2 h_lin_def)
     (simp add: constants)

subsection \<open>The sample collaborators are well formed\<close>

text \<open>
  The scanning solver reports success only on an exact root, the three sample entropy
  tables are strictly increasing (the sample enthalpy is the identity), and the
  sequence of ratios of the module's own sweep has twelve items.
\<close>

lemma scan_solver_sound:
  assumes "converged (scan_solver cands f x0)"
  shows "f (sol_x (scan_solver cands f x0)) = 0"
proof (cases "find (\<lambda>T. f T = 0) cands")
  case None
  then show ?thesis using assms by (simp add: scan_solver_def)
next
  case (Some T)
  then have "f T = 0" by (auto simp: find_Some_iff)
  then show ?thesis using Some by (simp add: scan_solver_def)
qed

lemma R_ln2_pos: "0 < R * ln 2"
  by (simp add: R_def)

lemma tab_increasing:
  assumes "T < T'"
  shows "interp_lin [(298.15, 0), (370, 1), (1000, 2), (1200, 3)] T
       < interp_lin [(298.15, 0), (370, 1), (1000, 2), (1200, 3)] T'"
  using assms by (simp add: field_simps)

lemma s_tab_increasing: "T < T' \<Longrightarrow> s_tab T < s_tab T'"
  unfolding s_tab_def by (intro mult_strict_left_mono tab_increasing R_ln2_pos)

lemma steep_increasing:
  assumes "T < T'"
  shows "interp_lin [(298.15, 0), (650, 0.1), (1150, 1), (1200, 1.1)] T
       < interp_lin [(298.15, 0), (650, 0.1), (1150, 1), (1200, 1.1)] T'"
  using assms by (simp add: field_simps)

lemma s_steep_increasing: "T < T' \<Longrightarrow> s_steep T < s_steep T'"
  unfolding s_steep_def by (intro mult_strict_left_mono steep_increasing R_ln2_pos)

lemma edge_increasing:
  assumes "T < T'"
  shows "interp_lin [(298.15, 0), (650, 0.1), (1109.815, 1), (1200, 1.1)] T
       < interp_lin [(298.15, 0), (650, 0.1), (1109.815, 1), (1200, 1.1)] T'"
  using assms by (simp add: field_simps)

lemma s_edge_increasing: "T < T' \<Longrightarrow> s_edge T < s_edge T'"
  unfolding s_edge_def by (intro mult_strict_left_mono edge_increasing R_ln2_pos)

lemma r_values_2_length: "length r_values_2 = 12"
  by (simp add: r_values_2_def linspace_def)

lemma scan_solver_is_sound: "sound_solver (scan_solver cands)"
  by (simp add: sound_solver_def scan_solver_sound)

subsection \<open>The sweep\<close>

lemma first_max_at_snoc_gt:
  assumes "first_max_at pre bi" "x > pre ! bi"
  shows "first_max_at (pre @ [x]) (length pre)"
proof -
  have below: "\<forall>j<length pre. pre ! j \<le> pre ! bi"
    using assms(1) by (simp add: first_max_at_def)
  have "\<forall>j<length pre. (pre @ [x]) ! j < x"
    using below assms(2) by (auto simp: nth_append intro: le_less_trans)
  then have "\<forall>j<length (pre @ [x]). (pre @ [x]) ! j \<le> x" "\<forall>j<length pre. (pre @ [x]) ! j < x"
    by (auto simp: less_Suc_eq nth_append intro: less_imp_le)
  then show ?thesis by (simp add: first_max_at_def)
qed

lemma first_max_at_snoc_le:
  assumes "first_max_at pre bi" "\<not> x > pre ! bi"
  shows "first_max_at (pre @ [x]) bi"
  using assms by (auto simp: first_max_at_def nth_append less_Suc_eq)

text \<open>
  The invariant of both scans: after the prefix \<open>pre\<close>, the best index is the first
  maximum of \<open>pre\<close> and the best value is the item there.
\<close>

lemma argmax_from_scan:
  "first_max_at pre bi \<Longrightarrow> bv = pre ! bi \<Longrightarrow> i = length pre \<Longrightarrow>
   first_max_at (pre @ xs) (argmax_from bi bv i xs)
   \<and> max_from bv xs = (pre @ xs) ! (argmax_from bi bv i xs)"
proof (induction xs arbitrary: pre bi bv i)
  case Nil
  then show ?case by (simp add: first_max_at_def)
next
  case (Cons x xs)
  show ?case
  proof (cases "x > bv")
    case True
    have "first_max_at (pre @ [x]) (length pre)"
      using first_max_at_snoc_gt Cons.prems True by simp
    from Cons.IH[OF this, of x "Suc i"] Cons.prems True show ?thesis by simp
  next
    case False
    have "first_max_at (pre @ [x]) bi"
      using first_max_at_snoc_le Cons.prems False by simp
    moreover have "bv = (pre @ [x]) ! bi"
      using Cons.prems by (simp add: first_max_at_def nth_append)
    ultimately show ?thesis
      using Cons.IH[of "pre @ [x]" bi bv "Suc i"] Cons.prems False by simp
  qed
qed

lemma scan_nonempty:
  assumes "ws \<noteq> []"
  shows "\<exists>k. np_argmax ws = Inr k \<and> py_max ws = Inr (ws ! k) \<and> first_max_at ws k"
proof -
  obtain x ys where ws: "ws = x # ys" using assms by (cases ws) auto
  have "first_max_at [x] 0" by (simp add: first_max_at_def)
  from argmax_from_scan[OF this, of x 1 ys] show ?thesis
    by (simp add: ws np_argmax_def py_max_def)
qed

lemma first_max_at_Max: "first_max_at ws k \<Longrightarrow> ws ! k = Max (set ws)"
  by (rule sym, rule Max_eqI) (auto simp: first_max_at_def in_set_conv_nth)

lemma net_work_optimum_empty: "net_work_optimum h s fsolve [] = Inl ValueError"
  by (simp add: net_work_optimum_def py_max_def)

text \<open>
  C7. For every non-empty sequence of compression ratios the reported optimum is the
  maximum of the sampled net works, together with the ratio at the first position
  where that maximum occurs. (On the empty sequence there is no optimum: \<open>max\<close> raises.)
\<close>

theorem sweep_optimum_is_first_maximum:
  assumes "rs \<noteq> []"
  shows "\<exists>k. net_work_optimum h s fsolve rs = Inr (Max (set (map (net_work h s fsolve) rs)), rs ! k)
             \<and> map (net_work h s fsolve) rs ! k = Max (set (map (net_work h s fsolve) rs))
             \<and> first_max_at (map (net_work h s fsolve) rs) k"
proof -
  have "map (net_work h s fsolve) rs \<noteq> []" using assms by simp
  from scan_nonempty[OF this] obtain k where
    k: "np_argmax (map (net_work h s fsolve) rs) = Inr k"
       "py_max (map (net_work h s fsolve) rs) = Inr (map (net_work h s fsolve) rs ! k)"
       "first_max_at (map (net_work h s fsolve) rs) k"
    by blast
  from k(3) have "map (net_work h s fsolve) rs ! k = Max (set (map (net_work h s fsolve) rs))"
    by (rule first_max_at_Max)
  with k show ?thesis
    by (auto simp: net_work_optimum_def Let_def)
qed

theorem sweep_optimum_witness:
  "[1, 2, 2 :: real] \<noteq> []
   \<and> net_work_optimum h_lin s_tab tab_solver [1, 2, 2] = Inr (601 / 6, 2)
   \<and> map (net_work h_lin s_tab tab_solver) [1, 2, 2] = [0, 601 / 6, 601 / 6]
   \<and> first_max_at [0, 601 / 6, 601 / 6] 1"
  using sweep_optimum_is_first_maximum [of "[1, 2, 2]" h_lin s_tab tab_solver]
  by (simp add: net_work_optimum_def py_max_def np_argmax_def net_work_tab_1 net_work_tab_2
      first_max_at_def less_Suc_eq numeral_3_eq_3)

subsection \<open>Loading the table\<close>

lemma sum_zeros: "sum_list (concat (zeros m n)) = 0"
  by (induction m) (simp_all add: zeros_def sum_list_replicate)

lemma module_interpolants_missing:
  "module_interpolants lin_spline (\<lambda>name. False) (\<lambda>name. FileNotFoundError) =
     ([''Error: AirDataSonntag.txt not found. Please ensure it is in the data/ folder.'',
       ''WARNING: Data loaded is empty. Check AirDataSonntag.txt file.''],
      Inl ValueError)"
  by (simp add: module_interpolants_def load_module_data_def load_data_def zeros_def interp1d_def
      numeral_eq_Suc)

text \<open>
  C10, as stated, fails. With the data file missing, \<open>load_data\<close> returns the matrix of
  zeros and the module prints its warning, but the program does not go on with the
  zero data: the construction of the first interpolant on ten equal abscissae raises
  \<open>ValueError\<close>.
\<close>

theorem zero_table_counterexample:
  "fst (load_data (\<lambda>name. FileNotFoundError) ''AirDataSonntag.txt'') = replicate 10 (replicate 6 0)
   \<and> map (\<lambda>row. row ! 0) (replicate 10 (replicate 6 (0 :: real))) = replicate 10 0
   \<and> \<not> distinct (replicate 10 (0 :: real))
   \<and> snd (module_interpolants lin_spline (\<lambda>name. False) (\<lambda>name. FileNotFoundError))
       = Inl ValueError"
  by (simp add: module_interpolants_missing load_data_def zeros_def numeral_eq_Suc)

text \<open>
  C10, amended. When opening or reading the file fails, \<open>load_data\<close> raises nothing:
  on \<open>FileNotFoundError\<close> it prints that the file was not found, on any other exception
  derived from \<open>Exception\<close> it prints that an error occurred with the exception's text,
  and in both cases it returns the 10-by-6 matrix of zeros. When the load of the
  module's own data path fails, the module gets that matrix and prints, after the
  message of \<open>load_data\<close>, its warning that the data is empty.
\<close>

theorem load_data_failure_gives_zeros:
  "(files filename = FileNotFoundError \<longrightarrow>
      load_data files filename =
        (replicate 10 (replicate 6 0),
         [''Error: '' @ filename @ '' not found. Please ensure it is in the data/ folder.'']))
   \<and> (files filename = OtherException e \<longrightarrow>
        load_data files filename =
          (replicate 10 (replicate 6 0), [''An error occurred loading data: '' @ e]))
   \<and> (let data_path = (if \<not> path_exists ''data/AirDataSonntag.txt''
                        then ''AirDataSonntag.txt'' else ''data/AirDataSonntag.txt'')
       in (\<forall>numbers. files data_path \<noteq> Numbers numbers) \<longrightarrow>
          load_module_data path_exists files =
            (replicate 10 (replicate 6 0),
             snd (load_data files data_path)
             @ [''WARNING: Data loaded is empty. Check AirDataSonntag.txt file.'']))"
proof (intro conjI)
  show "files filename = FileNotFoundError \<longrightarrow>
      load_data files filename =
        (replicate 10 (replicate 6 0),
         [''Error: '' @ filename @ '' not found. Please ensure it is in the data/ folder.''])"
    by (simp add: load_data_def zeros_def)
  show "files filename = OtherException e \<longrightarrow>
        load_data files filename =
          (replicate 10 (replicate 6 0), [''An error occurred loading data: '' @ e])"
    by (simp add: load_data_def zeros_def)
  define data_path where "data_path = (if \<not> path_exists ''data/AirDataSonntag.txt''
            then ''AirDataSonntag.txt'' else ''data/AirDataSonntag.txt'')"
  have "load_module_data path_exists files =
      (zeros 10 6,
       snd (load_data files data_path)
       @ [''WARNING: Data loaded is empty. Check AirDataSonntag.txt file.''])"
    if "\<forall>numbers. files data_path \<noteq> Numbers numbers"
  proof -
    have "fst (load_data files data_path) = zeros 10 6"
      using that by (cases "files data_path") (simp_all add: load_data_def)
    then show ?thesis
      unfolding load_module_data_def data_path_def [symmetric] Let_def
      by (cases "load_data files data_path") (simp add: sum_zeros)
  qed
  then show "let data_path = (if \<not> path_exists ''data/AirDataSonntag.txt''
                        then ''AirDataSonntag.txt'' else ''data/AirDataSonntag.txt'')
       in (\<forall>numbers. files data_path \<noteq> Numbers numbers) \<longrightarrow>
          load_module_data path_exists files =
            (replicate 10 (replicate 6 0),
             snd (load_data files data_path)
             @ [''WARNING: Data loaded is empty. Check AirDataSonntag.txt file.''])"
    unfolding data_path_def [symmetric] Let_def by (simp add: zeros_def)
qed

theorem load_data_failure_witness:
  "load_data (\<lambda>name. FileNotFoundError) ''missing.txt''
     = (replicate 10 (replicate 6 0),
        [''Error: missing.txt not found. Please ensure it is in the data/ folder.''])
   \<and> load_data (\<lambda>name. OtherException ''denied'') ''locked.txt''
       = (replicate 10 (replicate 6 0), [''An error occurred loading data: denied''])
   \<and> (\<forall>numbers. (\<lambda>name. OtherException ''denied'') ''AirDataSonntag.txt'' \<noteq> Numbers numbers)
   \<and> load_module_data (\<lambda>name. False) (\<lambda>name. OtherException ''denied'')
       = (replicate 10 (replicate 6 0),
          [''An error occurred loading data: denied'',
           ''WARNING: Data loaded is empty. Check AirDataSonntag.txt file.''])"
  using load_data_failure_gives_zeros
      [where files = "\<lambda>name. FileNotFoundError" and filename = "''missing.txt''"]
    load_data_failure_gives_zeros
      [where files = "\<lambda>name. OtherException ''denied''" and filename = "''locked.txt''"
         and e = "''denied''" and path_exists = "\<lambda>name. False"]
  by (simp add: load_data_def)

subsection \<open>The Brayton evaluator\<close>

lemma tab_solver_diff_2:
  "tab_solver (s_diff_comp s_tab 2) x0 = \<lparr>sol_x = 370, converged = True\<rparr>"
  "tab_solver (s_diff_turb s_tab 2) x0 = \<lparr>sol_x = 1000, converged = True\<rparr>"
  by (simp_all add: resid_comp resid_turb tab_solver_comp_2 tab_solver_turb_2)

lemma thermal_efficiency_tab_2:
  "thermal_efficiency h_lin s_tab tab_solver 2 = Finite (6010 / 49321)"
  unfolding thermal_efficiency_def Let_def tab_solver_diff_2 solve_result.simps
  by (simp add: h_lin_def np_divide_def constants)

text \<open>
  C1. At every positive compression ratio, with \<open>T2s\<close> and \<open>T4s\<close> the answers of the two
  solves: when the solver is sound and reports convergence on the compressor solve,
  the entropy at \<open>T2s\<close> is \<open>s1 + R ln r\<close>, and on the turbine solve, the entropy at
  \<open>T4s\<close> is \<open>s3 - R ln r\<close>; the net work \<open>net_work(r)\<close> returns is
  \<open>(h3 - h4) - (h2 - h1)\<close>; and when the heat input \<open>h3 - h2\<close> is not zero, the
  thermal efficiency returned is the quotient of that net work by that heat input.
  (The heat input is a local of the evaluators, which return the ratio and the net
  work.)
\<close>

theorem brayton_targets_and_ratio:
  assumes "0 < r"
  shows "let T2s = sol_x (fsolve (s_diff_comp s r) (T1 * r powr 0.3));
             T4s = sol_x (fsolve (s_diff_turb s r) (T3 / r powr 0.3));
             h1 = h T1;
             h2 = h1 + (h T2s - h1) / eta_c;
             h3 = h T3;
             h4 = h3 - eta_t * (h3 - h T4s);
             w_net = (h3 - h4) - (h2 - h1);
             heat_input = h3 - h2
         in (sound_solver fsolve \<and> converged (fsolve (s_diff_comp s r) (T1 * r powr 0.3))
               \<longrightarrow> s T2s = s T1 + R * ln r)
          \<and> (sound_solver fsolve \<and> converged (fsolve (s_diff_turb s r) (T3 / r powr 0.3))
               \<longrightarrow> s T4s = s T3 - R * ln r)
          \<and> net_work h s fsolve r = w_net
          \<and> (heat_input \<noteq> 0 \<longrightarrow> thermal_efficiency h s fsolve r = Finite (w_net / heat_input))"
proof -
  have comp: "s (sol_x (fsolve (s_diff_comp s r) x0)) = s T1 + R * ln r"
    if "sound_solver fsolve" "converged (fsolve (s_diff_comp s r) x0)" for x0
  proof -
    have "s_diff_comp s r (sol_x (fsolve (s_diff_comp s r) x0)) = 0"
      using that by (simp add: sound_solver_def)
    then show ?thesis by (simp add: s_diff_comp_def)
  qed
  have turb: "s (sol_x (fsolve (s_diff_turb s r) x0)) = s T3 - R * ln r"
    if "sound_solver fsolve" "converged (fsolve (s_diff_turb s r) x0)" for x0
  proof -
    have "s_diff_turb s r (sol_x (fsolve (s_diff_turb s r) x0)) = 0"
      using that by (simp add: sound_solver_def)
    then show ?thesis by (simp add: s_diff_turb_def)
  qed
  show ?thesis
    using comp turb
    by (simp add: thermal_efficiency_def net_work_def resid_comp [symmetric]
        resid_turb [symmetric] np_divide_def Let_def)
qed

theorem brayton_targets_and_ratio_witness:
  "(0 :: real) < 2
   \<and> sound_solver tab_solver
   \<and> tab_solver (s_diff_comp s_tab 2) (T1 * 2 powr 0.3) = \<lparr>sol_x = 370, converged = True\<rparr>
   \<and> tab_solver (s_diff_turb s_tab 2) (T3 / 2 powr 0.3) = \<lparr>sol_x = 1000, converged = True\<rparr>
   \<and> s_tab 370 = s_tab T1 + R * ln 2
   \<and> s_tab 1000 = s_tab T3 - R * ln 2
   \<and> net_work h_lin s_tab tab_solver 2 = 601 / 6
   \<and> h_lin T3 - (h_lin T1 + (h_lin 370 - h_lin T1) / eta_c) = 49321 / 60
   \<and> thermal_efficiency h_lin s_tab tab_solver 2 = Finite ((601 / 6) / (49321 / 60))"
proof -
  have sound: "sound_solver tab_solver"
    unfolding tab_solver_def by (rule scan_solver_is_sound)
  have heat: "h_lin T3 - (h_lin T1 + (h_lin 370 - h_lin T1) / eta_c) = 49321 / 60"
    by (simp add: h_lin_def constants)
  have work: "h_lin T3 - (h_lin T3 - eta_t * (h_lin T3 - h_lin 1000))
      - (h_lin T1 + (h_lin 370 - h_lin T1) / eta_c - h_lin T1) = 601 / 6"
    by (simp add: h_lin_def constants)
  show ?thesis
    using brayton_targets_and_ratio [where r = 2 and h = h_lin and s = s_tab and fsolve = tab_solver]
      sound
    unfolding Let_def tab_solver_diff_2 solve_result.simps heat work
    by simp
qed

text \<open>
  C2. At a positive compression ratio and with a non-zero compressor efficiency, the
  evaluators compute the actual
  compressor exit enthalpy as \<open>h_in + (h_out_isentropic - h_in) / efficiency\<close> and the
  actual turbine exit enthalpy as \<open>h_in - efficiency * (h_in - h_out_isentropic)\<close>:
  each result is the one obtained from the component state model of the
  specification, for the sensitivity evaluator at the efficiencies it is given and for
  the others at the module's \<open>eta_c\<close> and \<open>eta_t\<close>.
\<close>

theorem evaluators_use_component_model:
  assumes "0 < r" and "eta_c_val \<noteq> 0"
  shows "(let T2s = sol_x (fsolve (s_diff_comp s r) (T1 * r powr 0.3));
              T4s = sol_x (fsolve (s_diff_turb s r) (T3 / r powr 0.3));
              h2 = spec_apply_isentropic_efficiency (h T1) (h T2s) eta_c_val Compression;
              h4 = spec_apply_isentropic_efficiency (h T3) (h T4s) eta_t_val Expansion
          in thermal_efficiency_sens h s fsolve r eta_c_val eta_t_val =
               np_multiply (np_divide ((h T3 - h4) - (h2 - h T1)) (h T3 - h2)) 100)
       \<and> (let T2s = sol_x (fsolve (s_diff_comp s r) (T1 * r powr 0.3));
              T4s = sol_x (fsolve (s_diff_turb s r) (T3 / r powr 0.3));
              h2 = spec_apply_isentropic_efficiency (h T1) (h T2s) eta_c Compression;
              h4 = spec_apply_isentropic_efficiency (h T3) (h T4s) eta_t Expansion
          in thermal_efficiency h s fsolve r = np_divide ((h T3 - h4) - (h2 - h T1)) (h T3 - h2)
             \<and> net_work h s fsolve r = (h T3 - h4) - (h2 - h T1))
       \<and> (let T4s = sol_x (fsolve (s_diff_turb s r) 1000);
              h4 = spec_apply_isentropic_efficiency (h T3) (h T4s) eta_t Expansion
          in snd (snd (calculate_efficiencies_comb h s fsolve r)) =
               sol_x (fsolve (\<lambda>T. h T - h4) 800))"
  using assms
  by (simp add: thermal_efficiency_sens_def thermal_efficiency_def net_work_def
      calculate_efficiencies_comb_def spec_apply_isentropic_efficiency_def
      resid_comp resid_turb Let_def)

theorem evaluators_use_component_model_witness:
  "(0 :: real) < 2 \<and> (1 / 2 :: real) \<noteq> 0
   \<and> spec_apply_isentropic_efficiency (h_lin T1) (h_lin 370) (1 / 2) Compression = 441.85
   \<and> spec_apply_isentropic_efficiency (h_lin T3) (h_lin 1000) (3 / 4) Expansion = 1050
   \<and> thermal_efficiency_sens h_lin s_tab tab_solver 2 (1 / 2) (3 / 4) = Finite (63000 / 75815)"
  using evaluators_use_component_model
    [where eta_c_val = "1 / 2" and eta_t_val = "3 / 4" and s = s_tab and r = 2
       and fsolve = tab_solver and h = h_lin]
  by (simp add: tab_solver_diff_2 spec_apply_isentropic_efficiency_def h_lin_def Let_def)
     (simp add: np_divide_def constants)

text \<open>
  C9. The three copies of the Brayton computation agree at every positive compression
  ratio:
  \<open>thermal_efficiency_sens(r, 0.90, 0.90)\<close> is \<open>thermal_efficiency(r) * 100\<close>, and the
  numerator of the ratio \<open>thermal_efficiency(r)\<close> returns is \<open>net_work(r)\<close> (its
  denominator being the heat input \<open>h3 - h2\<close>).
\<close>

theorem brayton_implementations_agree:
  assumes "0 < r"
  shows "thermal_efficiency_sens h s fsolve r 0.90 0.90 = np_multiply (thermal_efficiency h s fsolve r) 100
   \<and> thermal_efficiency h s fsolve r =
       np_divide (net_work h s fsolve r)
         (h T3 - (h T1 + (h (sol_x (fsolve (s_diff_comp s r) (T1 * r powr 0.3))) - h T1) / eta_c))"
  by (simp add: thermal_efficiency_sens_def thermal_efficiency_def net_work_def
      resid_comp resid_turb eta_c_def eta_t_def Let_def)

theorem brayton_implementations_agree_witness:
  "(0 :: real) < 2
   \<and> thermal_efficiency_sens h_lin s_tab tab_solver 2 0.90 0.90 = Finite (601000 / 49321)
   \<and> thermal_efficiency h_lin s_tab tab_solver 2 = Finite (6010 / 49321)
   \<and> net_work h_lin s_tab tab_solver 2 = 601 / 6"
  using brayton_implementations_agree [where r = 2 and h = h_lin and s = s_tab and fsolve = tab_solver]
  by (simp add: thermal_efficiency_tab_2 net_work_tab_2)

subsection \<open>The combined cycle evaluator\<close>

lemma entropy_residuals:
  "(\<lambda>T. s T - (s T1 + R * ln r)) = (\<lambda>T. s T - s T1 - R * ln r)"
  "(\<lambda>T. s T - (s T3 - R * ln r)) = (\<lambda>T. s T - s T3 + R * ln r)"
  by (rule ext, simp)+

lemma tab_solver_enthalpy_2:
  "tab_solver (\<lambda>T. h_lin T - 1020) x0 = \<lparr>sol_x = 1020, converged = True\<rparr>"
  by (simp add: tab_solver_def scan_solver_def h_lin_def constants)

lemma comb_tab_2:
  "calculate_efficiencies_comb h_lin s_tab tab_solver 2 =
     (Finite (601000 / 49321), Finite (1828408 / 49321), 1020)"
proof -
  have h4: "h_lin T3 - eta_t * (h_lin T3 - h_lin 1000) = 1020"
    by (simp add: h_lin_def constants)
  show ?thesis
    unfolding calculate_efficiencies_comb_def Let_def tab_solver_comp_2 tab_solver_turb_2
      solve_result.simps h4 tab_solver_enthalpy_2
    by (simp add: h_lin_def np_divide_def constants)
qed

lemma spec_tab_2:
  "spec_evaluate_combined h_lin s_tab tab_solver 2 =
     (Finite (6010 / 49321), Finite (457102 / 1233025), 1020)"
proof -
  have h4: "h_lin T3 - eta_t * (h_lin T3 - h_lin 1000) = 1020"
    by (simp add: h_lin_def constants)
  show ?thesis
    unfolding spec_evaluate_combined_def Let_def entropy_residuals tab_solver_comp_2
      tab_solver_turb_2 solve_result.simps spec_apply_isentropic_efficiency_def mode.case h4
      tab_solver_enthalpy_2
    by (simp add: h_lin_def np_divide_def constants)
qed

text \<open>
  C3, as stated, fails: above the threshold the function returns a percentage, one
  hundred times the ratio \<open>(net_work_brayton + w_bottoming) / heat_input_brayton\<close>.
\<close>

theorem combined_efficiency_ratio_counterexample:
  "T4_limit \<le> snd (snd (calculate_efficiencies_comb h_lin s_tab tab_solver 2))
   \<and> fst (snd (calculate_efficiencies_comb h_lin s_tab tab_solver 2)) = Finite (1828408 / 49321)
   \<and> fst (snd (spec_evaluate_combined h_lin s_tab tab_solver 2)) = Finite (457102 / 1233025)
   \<and> fst (snd (calculate_efficiencies_comb h_lin s_tab tab_solver 2))
       \<noteq> fst (snd (spec_evaluate_combined h_lin s_tab tab_solver 2))"
proof -
  have h4: "h_lin T3 - eta_t * (h_lin T3 - h_lin 1000) = 1020"
    by (simp add: h_lin_def constants)
  have spec: "fst (snd (spec_evaluate_combined h_lin s_tab tab_solver 2)) = Finite (457102 / 1233025)"
    unfolding spec_evaluate_combined_def Let_def entropy_residuals tab_solver_comp_2
      tab_solver_turb_2 solve_result.simps spec_apply_isentropic_efficiency_def mode.case h4
      tab_solver_enthalpy_2
    by (simp add: h_lin_def np_divide_def constants)
  show ?thesis
    unfolding spec comb_tab_2 by (simp add: constants)
qed

text \<open>
  C3, amended. At every positive compression ratio the function resolves \<open>T4_actual\<close> from the
  residual \<open>h(T) - h4\<close> and decides on the hard test \<open>T4_actual >= T4_limit\<close>, as the
  specification's evaluator does; what it returns are percentages: its Brayton and
  combined efficiencies are one hundred times those of the specification, the
  combined one being \<open>100 (net_work_brayton + w_bottoming) / heat_input_brayton\<close> with
  \<open>w_bottoming\<close> from \<open>max(0, h4 - h(T_stack))\<close> at or above the threshold and the
  Brayton percentage below it.
\<close>

theorem combined_evaluator_in_percent:
  assumes "0 < r"
  shows "calculate_efficiencies_comb h s fsolve r =
     (case spec_evaluate_combined h s fsolve r of
        (eta_brayton, combined_efficiency, T4_actual) \<Rightarrow>
          (np_multiply eta_brayton 100, np_multiply combined_efficiency 100, T4_actual))"
  by (simp add: calculate_efficiencies_comb_def spec_evaluate_combined_def
      spec_apply_isentropic_efficiency_def entropy_residuals Let_def)

theorem combined_evaluator_in_percent_witness:
  "(0 :: real) < 2
   \<and> spec_evaluate_combined h_lin s_tab tab_solver 2 =
       (Finite (6010 / 49321), Finite (457102 / 1233025), 1020)
   \<and> calculate_efficiencies_comb h_lin s_tab tab_solver 2 =
       (Finite (601000 / 49321), Finite (1828408 / 49321), 1020)"
  using combined_evaluator_in_percent [where r = 2 and h = h_lin and s = s_tab and fsolve = tab_solver]
  by (simp add: spec_tab_2)

subsection \<open>Combined against Brayton-only efficiency\<close>

lemma ln_4: "ln (4 :: real) = 2 * ln 2"
proof -
  have "ln (4 :: real) = ln (2 * 2)" by simp
  also have "\<dots> = ln 2 + ln 2" by (rule ln_mult_pos) simp_all
  finally show ?thesis by simp
qed

lemma tab_solver_comp_4:
  "tab_solver (\<lambda>T. s_tab T - s_tab T1 - R * ln 4) x0 = \<lparr>sol_x = 1000, converged = True\<rparr>"
  using R_ln2_nonzero by (simp add: tab_solver_def scan_solver_def s_tab_nodes ln_4)

lemma tab_solver_turb_4:
  "tab_solver (\<lambda>T. s_tab T - s_tab T3 + R * ln 4) x0 = \<lparr>sol_x = 370, converged = True\<rparr>"
  using R_ln2_nonzero by (simp add: tab_solver_def scan_solver_def s_tab_nodes ln_4)

lemma tab_solver_enthalpy_4:
  "tab_solver (\<lambda>T. h_lin T - 453) x0 = \<lparr>sol_x = 453, converged = True\<rparr>"
  by (simp add: tab_solver_def scan_solver_def h_lin_def constants)

lemma comb_tab_4:
  "calculate_efficiencies_comb h_lin s_tab tab_solver 4 =
     (Finite (- (197000 / 7321)), Finite (- (197000 / 7321)), 453)"
proof -
  have h4: "h_lin T3 - eta_t * (h_lin T3 - h_lin 370) = 453"
    by (simp add: h_lin_def constants)
  show ?thesis
    unfolding calculate_efficiencies_comb_def Let_def tab_solver_comp_4 tab_solver_turb_4
      solve_result.simps h4 tab_solver_enthalpy_4
    by (simp add: h_lin_def np_divide_def constants)
qed

lemma s_steep_nodes:
  "s_steep T1 = 0" "s_steep 650 = R * ln 2 / 10" "s_steep 1150 = R * ln 2"
  "s_steep T3 = 11 * (R * ln 2) / 10"
  by (simp_all add: s_steep_def constants)

lemma steep_solver_comp_2:
  "steep_solver (\<lambda>T. s_steep T - s_steep T1 - R * ln 2) x0 = \<lparr>sol_x = 1150, converged = True\<rparr>"
  by (simp add: steep_solver_def scan_solver_def s_steep_nodes)

lemma steep_solver_turb_2:
  "steep_solver (\<lambda>T. s_steep T - s_steep T3 + R * ln 2) x0 = \<lparr>sol_x = 650, converged = True\<rparr>"
  using R_ln2_nonzero by (simp add: steep_solver_def scan_solver_def s_steep_nodes)

lemma steep_solver_enthalpy_2:
  "steep_solver (\<lambda>T. h_lin T - 705) x0 = \<lparr>sol_x = 705, converged = True\<rparr>"
  by (simp add: steep_solver_def scan_solver_def h_lin_def)

lemma comb_steep_2:
  "calculate_efficiencies_comb h_lin s_steep steep_solver 2 =
     (Finite (903000 / 893), Finite (724003 / 893), 705)"
proof -
  have h4: "h_lin T3 - eta_t * (h_lin T3 - h_lin 650) = 705"
    by (simp add: h_lin_def constants)
  show ?thesis
    unfolding calculate_efficiencies_comb_def Let_def steep_solver_comp_2 steep_solver_turb_2
      solve_result.simps h4 steep_solver_enthalpy_2
    by (simp add: h_lin_def np_divide_def constants)
qed

text \<open>
  C8, as stated, fails: nothing keeps the heat input positive. On the second table, at
  \<open>r = 2\<close>, the compressor exit is hotter than the turbine inlet, the turbine exit is
  above the threshold, and the combined efficiency returned is below the Brayton one.
\<close>

theorem combined_below_brayton_counterexample:
  "calculate_efficiencies_comb h_lin s_steep steep_solver 2 =
     (Finite (903000 / 893), Finite (724003 / 893), 705)
   \<and> T4_limit \<le> 705
   \<and> \<not> np_ge (Finite (724003 / 893)) (Finite (903000 / 893))"
  by (simp add: comb_steep_2 T4_limit_def)

text \<open>
  C8, amended. At every positive compression ratio: where the resolved turbine exit
  temperature is below the threshold, the combined efficiency returned equals the
  Brayton efficiency returned; and where the Brayton heat input \<open>h3 - h2\<close> is
  positive, the combined efficiency returned is greater than or equal to the Brayton
  efficiency returned.
\<close>

theorem combined_not_below_brayton:
  assumes "0 < r"
  shows "case calculate_efficiencies_comb h s fsolve r of
           (eta_brayton, eta_combined, T4_real) \<Rightarrow>
             (T4_real < T4_limit \<longrightarrow> eta_combined = eta_brayton)
             \<and> (0 < h T3 - (h T1 + (h (sol_x (fsolve (\<lambda>T. s T - s T1 - R * ln r) 350)) - h T1) / eta_c)
                  \<longrightarrow> np_ge eta_combined eta_brayton)"
proof -
  define q where "q = h T3 - (h T1 + (h (sol_x (fsolve (\<lambda>T. s T - s T1 - R * ln r) 350)) - h T1) / eta_c)"
  define h4 where "h4 = h T3 - eta_t * (h T3 - h (sol_x (fsolve (\<lambda>T. s T - s T3 + R * ln r) 1000)))"
  define w where "w = (h T3 - h4) - (h T3 - q - h T1)"
  define wr where "wr = max 0 (h4 - h T_stack) / q_in_rankine * (q_in_rankine * eta_rankine_1kg / 100)"
  have comb: "calculate_efficiencies_comb h s fsolve r =
      (np_multiply (np_divide w q) 100,
       (if sol_x (fsolve (\<lambda>T. h T - h4) 800) \<ge> T4_limit
        then np_multiply (np_divide (w + wr) q) 100 else np_multiply (np_divide w q) 100),
       sol_x (fsolve (\<lambda>T. h T - h4) 800))"
    by (simp add: calculate_efficiencies_comb_def Let_def q_def h4_def w_def wr_def)
  have ge: "np_ge (np_multiply (np_divide (w + wr) q) 100) (np_multiply (np_divide w q) 100)"
    and self: "np_ge (np_multiply (np_divide w q) 100) (np_multiply (np_divide w q) 100)"
    if q: "0 < q"
  proof -
    have "0 \<le> wr" by (simp add: wr_def constants)
    then have "w * 100 / q \<le> (w * 100 + wr * 100) / q"
      using q by (intro divide_right_mono) simp_all
    then show "np_ge (np_multiply (np_divide (w + wr) q) 100) (np_multiply (np_divide w q) 100)"
      using q by (simp add: np_divide_def)
    show "np_ge (np_multiply (np_divide w q) 100) (np_multiply (np_divide w q) 100)"
      using q by (simp add: np_divide_def)
  qed
  show ?thesis
    unfolding comb q_def [symmetric] using ge self by simp
qed

theorem combined_not_below_brayton_witness:
  "(0 :: real) < 2
   \<and> 0 < h_lin T3 - (h_lin T1 + (h_lin (sol_x (tab_solver (\<lambda>T. s_tab T - s_tab T1 - R * ln 2) 350)) - h_lin T1) / eta_c)
   \<and> calculate_efficiencies_comb h_lin s_tab tab_solver 2 =
       (Finite (601000 / 49321), Finite (1828408 / 49321), 1020)
   \<and> np_ge (Finite (1828408 / 49321)) (Finite (601000 / 49321))
   \<and> (0 :: real) < 4
   \<and> 0 < h_lin T3 - (h_lin T1 + (h_lin (sol_x (tab_solver (\<lambda>T. s_tab T - s_tab T1 - R * ln 4) 350)) - h_lin T1) / eta_c)
   \<and> calculate_efficiencies_comb h_lin s_tab tab_solver 4 =
       (Finite (- (197000 / 7321)), Finite (- (197000 / 7321)), 453)
   \<and> 453 < T4_limit"
  using combined_not_below_brayton [where h = h_lin and s = s_tab and fsolve = tab_solver and r = 2]
    combined_not_below_brayton [where h = h_lin and s = s_tab and fsolve = tab_solver and r = 4]
  unfolding comb_tab_2 comb_tab_4 tab_solver_comp_2 tab_solver_comp_4 solve_result.simps
  by (simp add: h_lin_def constants)

subsection \<open>Heat input\<close>

lemma steep_solver_diff_2:
  "steep_solver (s_diff_comp s_steep 2) x0 = \<lparr>sol_x = 1150, converged = True\<rparr>"
  "steep_solver (s_diff_turb s_steep 2) x0 = \<lparr>sol_x = 650, converged = True\<rparr>"
  by (simp_all add: resid_comp resid_turb steep_solver_comp_2 steep_solver_turb_2)

lemma s_edge_nodes:
  "s_edge T1 = 0" "s_edge 650 = R * ln 2 / 10" "s_edge 1109.815 = R * ln 2"
  "s_edge T3 = 11 * (R * ln 2) / 10"
  by (simp_all add: s_edge_def constants)

lemma edge_solver_diff_2:
  "edge_solver (s_diff_comp s_edge 2) x0 = \<lparr>sol_x = 1109.815, converged = True\<rparr>"
  "edge_solver (s_diff_turb s_edge 2) x0 = \<lparr>sol_x = 650, converged = True\<rparr>"
  by (simp_all add: s_diff_comp_def s_diff_turb_def edge_solver_def scan_solver_def s_edge_def
      constants)

text \<open>
  C6, as stated, fails. At the valid ratio \<open>r = 2\<close>, with both efficiencies 0.9, the
  heat input on the second table is negative and the evaluator returns an efficiency
  of more than ten; on the third table the heat input is zero and the evaluator
  returns \<open>-inf\<close>. It fails in neither case.
\<close>

theorem heat_input_counterexample:
  "(1 :: real) < 2 \<and> 0 < eta_c \<and> eta_c \<le> 1 \<and> 0 < eta_t \<and> eta_t \<le> 1
   \<and> h_lin T3 - (h_lin T1 + (h_lin (sol_x (steep_solver (s_diff_comp s_steep 2) (T1 * 2 powr 0.3)))
                               - h_lin T1) / eta_c) = - (893 / 20)
   \<and> thermal_efficiency h_lin s_steep steep_solver 2 = Finite (9030 / 893)
   \<and> h_lin T3 - (h_lin T1 + (h_lin (sol_x (edge_solver (s_diff_comp s_edge 2) (T1 * 2 powr 0.3)))
                               - h_lin T1) / eta_c) = 0
   \<and> thermal_efficiency h_lin s_edge edge_solver 2 = NegInf"
  unfolding thermal_efficiency_def Let_def steep_solver_diff_2 edge_solver_diff_2
    solve_result.simps
  by (simp add: h_lin_def np_divide_def constants)

text \<open>
  C6, amended. The evaluator does not check its heat input \<open>h3 - h2\<close> and never fails
  on it: at every positive ratio it returns the finite quotient of net work by heat input when
  the heat input is not zero, whatever its sign, and \<open>inf\<close>, \<open>-inf\<close> or \<open>nan\<close> (by
  the sign of the net work) when it is zero. The heat input is positive exactly when
  the actual compressor exit enthalpy \<open>h2\<close> is below \<open>h3\<close>.
\<close>

theorem heat_input_is_not_checked:
  assumes "0 < r"
  shows "(let T2s = sol_x (fsolve (s_diff_comp s r) (T1 * r powr 0.3));
        T4s = sol_x (fsolve (s_diff_turb s r) (T3 / r powr 0.3));
        h1 = h T1;
        h2 = h1 + (h T2s - h1) / eta_c;
        h3 = h T3;
        h4 = h3 - eta_t * (h3 - h T4s);
        w_net = (h3 - h4) - (h2 - h1);
        heat_input = h3 - h2
    in thermal_efficiency h s fsolve r =
         (if heat_input = 0
          then (if 0 < w_net then PosInf else if w_net < 0 then NegInf else NaN)
          else Finite (w_net / heat_input))
       \<and> (0 < heat_input \<longleftrightarrow> h2 < h3))"
  by (simp add: thermal_efficiency_def np_divide_def Let_def)

theorem heat_input_is_not_checked_witness:
  "(0 :: real) < 2
   \<and> thermal_efficiency h_lin s_tab tab_solver 2 = Finite (6010 / 49321)
   \<and> thermal_efficiency h_lin s_steep steep_solver 2 = Finite (9030 / 893)
   \<and> thermal_efficiency h_lin s_edge edge_solver 2 = NegInf"
  using heat_input_is_not_checked [where r = 2 and h = h_lin and s = s_tab and fsolve = tab_solver]
    heat_input_is_not_checked [where r = 2 and h = h_lin and s = s_steep and fsolve = steep_solver]
    heat_input_is_not_checked [where r = 2 and h = h_lin and s = s_edge and fsolve = edge_solver]
  unfolding Let_def tab_solver_diff_2 steep_solver_diff_2 edge_solver_diff_2 solve_result.simps
  by (simp add: h_lin_def constants)

subsection \<open>What the callers do with the solver's verdict\<close>

lemma comb_seed_2:
  "calculate_efficiencies_comb h_lin s_tab seed_solver 2 =
     (Finite (2203000 / 151963), Finite (5885224 / 151963), 800)"
  unfolding calculate_efficiencies_comb_def Let_def seed_solver_def solve_result.simps
  by (simp add: h_lin_def np_divide_def constants)

text \<open>
  C4, as stated, fails. With a solver that never converges and hands its seed back,
  the combined evaluator returns an ordinary triple, the seed 800 as the turbine exit
  temperature in it: the very triple it returns when the solver reports success with
  the same iterates.
\<close>

theorem unconverged_solve_counterexample:
  "\<not> converged (scan_solver [] (\<lambda>T. s_tab T - s_tab T1 - R * ln 2) 350)
   \<and> \<not> converged (scan_solver [] (\<lambda>T. s_tab T - s_tab T3 + R * ln 2) 1000)
   \<and> \<not> converged (scan_solver [] (\<lambda>T. h_lin T - 1020) 800)
   \<and> calculate_efficiencies_comb h_lin s_tab (scan_solver []) 2 =
       (Finite (2203000 / 151963), Finite (5885224 / 151963), 800)
   \<and> calculate_efficiencies_comb h_lin s_tab seed_solver 2 =
       (Finite (2203000 / 151963), Finite (5885224 / 151963), 800)
   \<and> thermal_efficiency h_lin s_tab (scan_solver []) 2 = thermal_efficiency h_lin s_tab seed_solver 2"
proof -
  have "calculate_efficiencies_comb h_lin s_tab (scan_solver []) 2 =
      (Finite (2203000 / 151963), Finite (5885224 / 151963), 800)"
    unfolding calculate_efficiencies_comb_def Let_def scan_solver_def
    by (simp add: h_lin_def np_divide_def constants)
  moreover have "thermal_efficiency h_lin s_tab (scan_solver []) 2 =
      thermal_efficiency h_lin s_tab seed_solver 2"
    by (simp add: thermal_efficiency_def scan_solver_def seed_solver_def)
  ultimately show ?thesis
    by (simp add: comb_seed_2 scan_solver_def)
qed

text \<open>
  C4, amended. At a positive compression ratio no evaluator looks at whether a solve
  converged: each uses the iterate
  the solver returns, so two solvers that return the same iterates give the same
  results, whatever they report about convergence. A failed solve reaches the caller
  as an ordinary result computed from the last iterate.
\<close>

theorem convergence_verdict_is_ignored:
  assumes "0 < r" and "\<forall>f x0. sol_x (fsolve f x0) = sol_x (fsolve' f x0)"
  shows "thermal_efficiency h s fsolve r = thermal_efficiency h s fsolve' r
       \<and> net_work h s fsolve r = net_work h s fsolve' r
       \<and> thermal_efficiency_sens h s fsolve r eta_c_val eta_t_val =
           thermal_efficiency_sens h s fsolve' r eta_c_val eta_t_val
       \<and> calculate_efficiencies_comb h s fsolve r = calculate_efficiencies_comb h s fsolve' r"
  using assms
  by (simp add: thermal_efficiency_def net_work_def thermal_efficiency_sens_def
      calculate_efficiencies_comb_def)

theorem convergence_verdict_is_ignored_witness:
  "(0 :: real) < 2
   \<and> (\<forall>f x0. sol_x (scan_solver [] f x0) = sol_x (seed_solver f x0))
   \<and> (\<forall>f x0. \<not> converged (scan_solver [] f x0))
   \<and> (\<forall>f x0. converged (seed_solver f x0))
   \<and> calculate_efficiencies_comb h_lin s_tab (scan_solver []) 2 =
       calculate_efficiencies_comb h_lin s_tab seed_solver 2
   \<and> calculate_efficiencies_comb h_lin s_tab seed_solver 2 =
       (Finite (2203000 / 151963), Finite (5885224 / 151963), 800)"
proof -
  have same: "\<forall>f x0. sol_x (scan_solver [] f x0) = sol_x (seed_solver f x0)"
    by (simp add: scan_solver_def seed_solver_def)
  have "calculate_efficiencies_comb h_lin s_tab (scan_solver []) 2 =
      calculate_efficiencies_comb h_lin s_tab seed_solver 2"
    using convergence_verdict_is_ignored [OF _ same, where h = h_lin and s = s_tab and r = 2]
    by simp
  moreover have "\<forall>f x0. \<not> converged (scan_solver [] f x0)"
    by (simp add: scan_solver_def)
  moreover have "\<forall>f x0. converged (seed_solver f x0)"
    by (simp add: seed_solver_def)
  ultimately show ?thesis
    using same comb_seed_2 by simp
qed

subsection \<open>Parameters outside their range\<close>

lemma tab_solver_diff_1:
  "tab_solver (s_diff_comp s_tab 1) x0 = \<lparr>sol_x = T1, converged = True\<rparr>"
  "tab_solver (s_diff_turb s_tab 1) x0 = \<lparr>sol_x = T3, converged = True\<rparr>"
  using R_ln2_nonzero
  by (simp_all add: s_diff_comp_def s_diff_turb_def tab_solver_def scan_solver_def s_tab_nodes)

lemma sens_tab_2:
  "thermal_efficiency_sens h_lin s_tab tab_solver 2 (3 / 2) (3 / 2) = Finite (504200 / 17079)"
  unfolding thermal_efficiency_sens_def Let_def tab_solver_comp_2 tab_solver_turb_2
    solve_result.simps
  by (simp add: h_lin_def np_divide_def constants)

text \<open>
  C5, as stated, fails. At the compression ratio 1 the Brayton evaluator returns the
  efficiency 0, and with both isentropic efficiencies at 1.5 the sensitivity evaluator
  returns 29.5 per cent: neither rejects its parameters.
\<close>

theorem invalid_parameter_counterexample:
  "(1 :: real) \<le> 1
   \<and> thermal_efficiency h_lin s_tab tab_solver 1 = Finite 0
   \<and> (1 :: real) < 3 / 2
   \<and> thermal_efficiency_sens h_lin s_tab tab_solver 2 (3 / 2) (3 / 2) = Finite (504200 / 17079)"
proof -
  have "thermal_efficiency h_lin s_tab tab_solver 1 = Finite 0"
    unfolding thermal_efficiency_def Let_def tab_solver_diff_1 solve_result.simps
    by (simp add: h_lin_def np_divide_def constants)
  then show ?thesis by (simp add: sens_tab_2)
qed

text \<open>
  C5, amended. The evaluators validate nothing. At a positive compression ratio that
  is at most 1, or with an isentropic efficiency outside \<open>(0, 1]\<close>, the sensitivity
  evaluator runs both solves and returns the percentage computed from their answers
  (\<open>nan\<close> when the compressor efficiency is 0), and so does the Brayton evaluator at
  such a ratio. The two inlet temperatures are module constants with \<open>T1 < T3\<close>.
\<close>

theorem invalid_parameters_are_evaluated:
  assumes "0 < r"
    and "r \<le> 1 \<or> eta_c_val \<le> 0 \<or> 1 < eta_c_val \<or> eta_t_val \<le> 0 \<or> 1 < eta_t_val"
  shows "thermal_efficiency_sens h s fsolve r eta_c_val eta_t_val =
           (if eta_c_val = 0 then NaN
            else
              let T2s = sol_x (fsolve (s_diff_comp s r) (T1 * r powr 0.3));
                  T4s = sol_x (fsolve (s_diff_turb s r) (T3 / r powr 0.3));
                  h2 = h T1 + (h T2s - h T1) / eta_c_val;
                  h4 = h T3 - eta_t_val * (h T3 - h T4s)
              in np_multiply (np_divide ((h T3 - h4) - (h2 - h T1)) (h T3 - h2)) 100)
       \<and> thermal_efficiency h s fsolve r =
           (let T2s = sol_x (fsolve (s_diff_comp s r) (T1 * r powr 0.3));
                T4s = sol_x (fsolve (s_diff_turb s r) (T3 / r powr 0.3));
                h2 = h T1 + (h T2s - h T1) / eta_c;
                h4 = h T3 - eta_t * (h T3 - h T4s)
            in np_divide ((h T3 - h4) - (h2 - h T1)) (h T3 - h2))
       \<and> T1 < T3"
  by (simp add: thermal_efficiency_sens_def thermal_efficiency_def resid_comp resid_turb Let_def)
     (simp add: T1_def T3_def)

theorem invalid_parameters_are_evaluated_witness:
  "(0 :: real) < 1 \<and> (1 :: real) \<le> 1 \<and> (1 :: real) < 3 / 2
   \<and> thermal_efficiency_sens h_lin s_tab tab_solver 1 (3 / 2) (3 / 2) = Finite 0
   \<and> thermal_efficiency h_lin s_tab tab_solver 1 = Finite 0"
  using invalid_parameters_are_evaluated
    [where r = 1 and eta_c_val = "3 / 2" and eta_t_val = "3 / 2" and h = h_lin and s = s_tab
       and fsolve = tab_solver]
  unfolding Let_def tab_solver_diff_1 solve_result.simps
  by (simp add: h_lin_def np_divide_def constants)


end
